theory Spec2Isabelle
  imports Complex_Main "HOL-Library.Multiset"
begin

section \<open>N/U algebra and conservative aggregation of measurements\<close>

text \<open>
  A shallow embedding of \<^verbatim>\<open>07_code/nu_algebra.py\<close> and of the aggregation
  operators of \<^verbatim>\<open>07_code/hubble_analysis.py\<close>.

  Python's \<^verbatim>\<open>float\<close> is modelled by \<^typ>\<open>real\<close>: every arithmetic operation
  is exact, and there is no rounding, no infinity and no NaN. The one place
  where a branch of the code is decided by a rounded result, the total
  \<^verbatim>\<open>sum(weights)\<close> of \<^verbatim>\<open>weighted_mean\<close>, is a parameter of the model.
  Python's \<^verbatim>\<open>int\<close> is \<^typ>\<open>int\<close>. Every \<^verbatim>\<open>raise\<close> is a value \<open>Inl e\<close>
  of a sum type.
\<close>

subsection \<open>Errors\<close>

text \<open>
  Every failure of the two modules is a \<^verbatim>\<open>ValueError\<close> that carries a message.
  The five messages are named after the kind of failure they report; the kind
  \<open>LengthMismatch\<close> is raised with one message by \<^verbatim>\<open>weighted_mean\<close> and with
  another by \<^verbatim>\<open>aggregate_sequential\<close>.
\<close>

datatype error = ValueError string

datatype error_kind = InvalidExponent | LengthMismatch | EmptyInput | ZeroTotalWeight

definition pow_error :: error where
  "pow_error = ValueError ''Only positive integer exponents supported''"

definition empty_error :: error where
  "empty_error = ValueError ''Cannot compute mean of empty list''"

definition weights_length_error :: error where
  "weights_length_error = ValueError ''Weights must match number of N/U pairs''"

definition zero_weight_error :: error where
  "zero_weight_error = ValueError ''Total weight cannot be zero''"

definition errors_length_error :: error where
  "errors_length_error = ValueError ''Values and errors must have same length''"

definition kind_of :: "error \<Rightarrow> error_kind option" where
  "kind_of e =
     (if e = pow_error then Some InvalidExponent
      else if e = weights_length_error \<or> e = errors_length_error then Some LengthMismatch
      else if e = empty_error then Some EmptyInput
      else if e = zero_weight_error then Some ZeroTotalWeight
      else None)"

subsection \<open>The class \<^verbatim>\<open>NU\<close>\<close>

text \<open>
  An object of the class has the two attributes \<^verbatim>\<open>n\<close> and \<^verbatim>\<open>u\<close>; they are the
  fields \<open>nu_n\<close> and \<open>nu_u\<close> here, so that \<open>n\<close> and \<open>u\<close> stay free for variables.
  \<open>NU_init\<close> is the constructor \<^verbatim>\<open>NU(n, u)\<close>, which stores \<^verbatim>\<open>max(0.0, float(u))\<close>.
\<close>

record NU =
  nu_n :: real
  nu_u :: real

definition NU_init :: "real \<Rightarrow> real \<Rightarrow> NU" where
  "NU_init n u = \<lparr>nu_n = n, nu_u = max 0 u\<rparr>"

text \<open>\<^verbatim>\<open>__eq__\<close>: exact match of both components.\<close>

definition NU_eq :: "NU \<Rightarrow> NU \<Rightarrow> bool" where
  "NU_eq x y \<longleftrightarrow> nu_n x = nu_n y \<and> nu_u x = nu_u y"

definition add :: "NU \<Rightarrow> NU \<Rightarrow> NU" where
  "add x y = NU_init (nu_n x + nu_n y) (nu_u x + nu_u y)"

definition sub :: "NU \<Rightarrow> NU \<Rightarrow> NU" where
  "sub x y = NU_init (nu_n x - nu_n y) (nu_u x + nu_u y)"

definition mul :: "NU \<Rightarrow> NU \<Rightarrow> NU" where
  "mul x y = NU_init (nu_n x * nu_n y) (\<bar>nu_n x\<bar> * nu_u y + \<bar>nu_n y\<bar> * nu_u x)"

definition scalar :: "NU \<Rightarrow> real \<Rightarrow> NU" where
  "scalar x a = NU_init (a * nu_n x) (\<bar>a\<bar> * nu_u x)"

definition affine :: "NU \<Rightarrow> real \<Rightarrow> real \<Rightarrow> NU" where
  "affine x a b = NU_init (a * nu_n x + b) (\<bar>a\<bar> * nu_u x)"

definition catch :: "NU \<Rightarrow> NU" where
  "catch x = NU_init 0 (\<bar>nu_n x\<bar> + nu_u x)"

definition flip :: "NU \<Rightarrow> NU" where
  "flip x = NU_init (nu_u x) \<bar>nu_n x\<bar>"

definition invariant :: "NU \<Rightarrow> real" where
  "invariant x = \<bar>nu_n x\<bar> + nu_u x"

definition lower_bound :: "NU \<Rightarrow> real" where
  "lower_bound x = nu_n x - nu_u x"

definition upper_bound :: "NU \<Rightarrow> real" where
  "upper_bound x = nu_n x + nu_u x"

definition interval :: "NU \<Rightarrow> real \<times> real" where
  "interval x = (lower_bound x, upper_bound x)"

definition is_sign_stable :: "NU \<Rightarrow> bool" where
  "is_sign_stable x \<longleftrightarrow> \<bar>nu_n x\<bar> > nu_u x"

text \<open>\<^verbatim>\<open>__neg__\<close> and \<^verbatim>\<open>__abs__\<close>.\<close>

definition negate :: "NU \<Rightarrow> NU" where
  "negate x = scalar x (- 1)"

definition absolute :: "NU \<Rightarrow> NU" where
  "absolute x = NU_init \<bar>nu_n x\<bar> (nu_u x)"

text \<open>
  \<^verbatim>\<open>pow\<close>: the loop \<^verbatim>\<open>for _ in range(exponent - 1): result = result.mul(self)\<close>
  is \<open>pow_loop\<close>, which counts the remaining iterations down.
\<close>

fun pow_loop :: "NU \<Rightarrow> NU \<Rightarrow> nat \<Rightarrow> NU" where
  "pow_loop self result 0 = result"
| "pow_loop self result (Suc k) = pow_loop self (mul result self) k"

definition pow :: "NU \<Rightarrow> int \<Rightarrow> error + NU" where
  "pow self exponent =
     (if exponent < 1 then Inl pow_error
      else Inr (pow_loop self self (nat (exponent - 1))))"

subsection \<open>Module-level functions of \<^verbatim>\<open>nu_algebra.py\<close>\<close>

text \<open>
  \<^verbatim>\<open>cumulative_sum\<close> and \<^verbatim>\<open>cumulative_product\<close> start from the first argument
  and run over \<^verbatim>\<open>nu_pairs[1:]\<close>.
\<close>

fun sum_loop :: "NU \<Rightarrow> NU list \<Rightarrow> NU" where
  "sum_loop result [] = result"
| "sum_loop result (nu # rest) = sum_loop (add result nu) rest"

definition cumulative_sum :: "NU list \<Rightarrow> NU" where
  "cumulative_sum nu_pairs =
     (case nu_pairs of [] \<Rightarrow> NU_init 0 0 | first # rest \<Rightarrow> sum_loop first rest)"

fun product_loop :: "NU \<Rightarrow> NU list \<Rightarrow> NU" where
  "product_loop result [] = result"
| "product_loop result (nu # rest) = product_loop (mul result nu) rest"

definition cumulative_product :: "NU list \<Rightarrow> NU" where
  "cumulative_product nu_pairs =
     (case nu_pairs of [] \<Rightarrow> NU_init 1 0 | first # rest \<Rightarrow> product_loop first rest)"

text \<open>
  \<^verbatim>\<open>weighted_mean(nu_pairs, weights=None)\<close>: the optional argument is an
  \<open>option\<close>. The checks are made in the order of the source.

  \<^verbatim>\<open>total_weight = sum(weights)\<close> is the running total of the weights in
  double precision, which need not be their exact sum: it can be 0 where the
  exact sum is not, and the other way round. The test \<^verbatim>\<open>total_weight == 0\<close>
  and the divisor of the result are this total, so the built-in \<^verbatim>\<open>sum\<close> is
  the first argument \<open>py_sum\<close> of the model, and nothing is assumed of it.
\<close>

definition weighted_mean ::
    "(real list \<Rightarrow> real) \<Rightarrow> NU list \<Rightarrow> real list option \<Rightarrow> error + NU" where
  "weighted_mean py_sum nu_pairs weights =
     (if nu_pairs = [] then Inl empty_error
      else
        let ws = (case weights of None \<Rightarrow> replicate (length nu_pairs) 1 | Some w \<Rightarrow> w) in
        if length ws \<noteq> length nu_pairs then Inl weights_length_error
        else
          let total_weight = py_sum ws in
          if total_weight = 0 then Inl zero_weight_error
          else
            let weighted_sum = cumulative_sum (map (\<lambda>(nu, w). scalar nu w) (zip nu_pairs ws))
            in Inr (scalar weighted_sum (1 / total_weight)))"

subsection \<open>Aggregation operators of \<^verbatim>\<open>hubble_analysis.py\<close>\<close>

definition aggregate_pair :: "real \<Rightarrow> real \<Rightarrow> real \<Rightarrow> real \<Rightarrow> real \<times> real" where
  "aggregate_pair v1 e1 v2 e2 =
     (let agg_val = (v1 + v2) * 0.5;
          prop_err = (e1 + e2) * 0.5 + \<bar>v1 - v2\<bar> * 0.5
      in (agg_val, prop_err))"

text \<open>
  The loop \<^verbatim>\<open>for i in range(1, len(values))\<close> of \<^verbatim>\<open>aggregate_sequential\<close>,
  with the index and the two accumulators as arguments. It is entered only
  after the lengths were found equal, so \<open>errors ! i\<close> is in range whenever
  \<open>values ! i\<close> is.
\<close>

function aggregate_loop :: "real list \<Rightarrow> real list \<Rightarrow> nat \<Rightarrow> real \<times> real \<Rightarrow> real \<times> real" where
  "aggregate_loop values errors i (result_val, result_err) =
     (if i < length values
      then aggregate_loop values errors (Suc i)
             (aggregate_pair result_val result_err (values ! i) (errors ! i))
      else (result_val, result_err))"
  by pat_completeness auto
termination
  by (relation "measure (\<lambda>(values, errors, i, acc). length values - i)") auto

declare aggregate_loop.simps [simp del]

definition aggregate_sequential :: "real list \<Rightarrow> real list \<Rightarrow> error + real \<times> real" where
  "aggregate_sequential values errors =
     (if length values \<noteq> length errors then Inl errors_length_error
      else if length values = 0 then Inr (0, 0)
      else Inr (aggregate_loop values errors 1 (values ! 0, errors ! 0)))"

definition compute_interval :: "real \<Rightarrow> real \<Rightarrow> real \<times> real" where
  "compute_interval v e = (v - e, v + e)"

subsection \<open>Pairwise tension\<close>

text \<open>
  A row of the data frame, with the columns \<^verbatim>\<open>calculate_tension\<close> reads
  (\<^verbatim>\<open>source\<close>, \<^verbatim>\<open>n\<close>, \<^verbatim>\<open>u\<close>), and a row of its result. The quotient
  \<^verbatim>\<open>tension_sigma\<close> is a real number only when the denominator is not zero
  (numpy yields an infinity or NaN there), hence the \<open>option\<close>.
\<close>

record measurement =
  source :: string
  m_n :: real
  m_u :: real

record tension =
  source_1 :: string
  source_2 :: string
  delta_H0 :: real
  tension_sigma :: "real option"
  overlaps :: bool

definition tension_row :: "measurement \<Rightarrow> measurement \<Rightarrow> tension" where
  "tension_row r1 r2 =
     (let n1 = m_n r1; u1 = m_u r1; n2 = m_n r2; u2 = m_u r2 in
      \<lparr>source_1 = source r1,
       source_2 = source r2,
       delta_H0 = \<bar>n1 - n2\<bar>,
       tension_sigma =
         (if sqrt (u1\<^sup>2 + u2\<^sup>2) = 0 then None
          else Some (\<bar>n1 - n2\<bar> / sqrt (u1\<^sup>2 + u2\<^sup>2))),
       overlaps = (\<not> (min (n1 + u1) (n2 + u2) < max (n1 - u1) (n2 - u2)))\<rparr>)"

text \<open>The nested loops \<^verbatim>\<open>for i in range(n): for j in range(i + 1, n)\<close>.\<close>

definition calculate_tension :: "measurement list \<Rightarrow> tension list" where
  "calculate_tension df =
     (let n = length df in
      concat (map (\<lambda>i. map (\<lambda>j. tension_row (df ! i) (df ! j)) [Suc i..<n]) [0..<n]))"

text \<open>The first two rows of \<^verbatim>\<open>H0_DATA\<close>: Planck 2018 and SH0ES 2022.\<close>

definition planck :: measurement where
  "planck = \<lparr>source = ''Planck 2018 CMB'', m_n = 67.4, m_u = 0.5\<rparr>"

definition shoes :: measurement where
  "shoes = \<lparr>source = ''SH0ES 2022'', m_n = 73.04, m_u = 1.04\<rparr>"

subsection \<open>The specification's formulations\<close>

text \<open>
  Three definitions that follow the words of the specification rather than
  the source; the theorems below relate the source's functions to them.
  \<open>combine\<close> is the pairwise combinator on pairs, \<open>weightedMean_spec\<close> the
  computation of the weighted mean by index from a given total weight,
  \<open>conservative_interval\<close> the closed interval \<open>[n - u, n + u]\<close>.
\<close>

definition combine :: "real \<times> real \<Rightarrow> real \<times> real \<Rightarrow> real \<times> real" where
  "combine p q =
     (case p of (v1, e1) \<Rightarrow> case q of (v2, e2) \<Rightarrow>
        ((v1 + v2) / 2, (e1 + e2) / 2 + \<bar>v1 - v2\<bar> / 2))"

definition weightedMean_spec :: "NU list \<Rightarrow> real list \<Rightarrow> real \<Rightarrow> NU" where
  "weightedMean_spec xs weights totalWeight =
     scalar (cumulative_sum (map (\<lambda>i. scalar (xs ! i) (weights ! i)) [0..<length xs]))
            (1 / totalWeight)"

definition conservative_interval :: "real \<Rightarrow> real \<Rightarrow> real set" where
  "conservative_interval n u = {n - u .. n + u}"

section \<open>Properties\<close>

subsection \<open>Basic facts about the constructor and the loops\<close>

lemma NU_eq_iff: "NU_eq x y \<longleftrightarrow> x = y"
  by (auto simp: NU_eq_def)

lemma NU_init_nonneg: "0 \<le> nu_u (NU_init n u)"
  by (simp add: NU_init_def)

lemma NU_init_id: "0 \<le> nu_u x \<Longrightarrow> NU_init (nu_n x) (nu_u x) = x"
  by (simp add: NU_init_def max_def)

lemma pow_loop_nonneg: "0 \<le> nu_u result \<Longrightarrow> 0 \<le> nu_u (pow_loop self result k)"
  by (induction k arbitrary: result) (simp_all add: mul_def NU_init_nonneg)

lemma aggregate_pair_combine: "aggregate_pair v1 e1 v2 e2 = combine (v1, e1) (v2, e2)"
  by (simp add: aggregate_pair_def combine_def)

text \<open>
  From index \<open>i\<close> on, the loop folds the remaining (value, error) pairs into
  the accumulator, in input order.
\<close>

lemma aggregate_loop_foldl:
  "length errors = length values \<Longrightarrow>
     aggregate_loop values errors i acc = foldl combine acc (drop i (zip values errors))"
proof (induction "values" errors i acc rule: aggregate_loop.induct)
  case (1 vs es i result_val result_err)
  show ?case
  proof (cases "i < length vs")
    case True
    with "1.prems" have "drop i (zip vs es) = (vs ! i, es ! i) # drop (Suc i) (zip vs es)"
      by (simp add: Cons_nth_drop_Suc [symmetric])
    with True "1.IH" "1.prems" show ?thesis
      by (simp add: aggregate_loop.simps [of vs es i] aggregate_pair_combine)
  next
    case False
    with "1.prems" show ?thesis
      by (simp add: aggregate_loop.simps [of vs es i])
  qed
qed

lemma aggregate_sequential_foldl:
  "length values = length errors \<Longrightarrow> values \<noteq> [] \<Longrightarrow>
     aggregate_sequential values errors
       = Inr (foldl combine (hd values, hd errors) (zip (tl values) (tl errors)))"
  by (cases "values"; cases errors)
     (simp_all add: aggregate_sequential_def aggregate_loop_foldl)

lemma zip_scalar_index:
  "length ws = length xs \<Longrightarrow>
     map (\<lambda>(nu, w). scalar nu w) (zip xs ws) = map (\<lambda>i. scalar (xs ! i) (ws ! i)) [0..<length xs]"
  by (rule nth_equalityI) simp_all

lemma sum_loop_foldl: "sum_loop result rest = foldl add result rest"
  by (induction rest arbitrary: result) simp_all

lemma product_loop_foldl: "product_loop result rest = foldl mul result rest"
  by (induction rest arbitrary: result) simp_all

lemma pow_loop_product: "pow_loop self result k = product_loop result (replicate k self)"
  by (induction k arbitrary: result) simp_all

lemma add_zero_left: "0 \<le> nu_u x \<Longrightarrow> add (NU_init 0 0) x = x"
  by (simp add: add_def NU_init_def max_def)

lemma mul_one_left: "0 \<le> nu_u x \<Longrightarrow> mul (NU_init 1 0) x = x"
  by (simp add: mul_def NU_init_def max_def)

lemma kind_of_simps:
  "kind_of pow_error = Some InvalidExponent"
  "kind_of empty_error = Some EmptyInput"
  "kind_of weights_length_error = Some LengthMismatch"
  "kind_of zero_weight_error = Some ZeroTotalWeight"
  "kind_of errors_length_error = Some LengthMismatch"
  by (simp_all add: kind_of_def empty_error_def weights_length_error_def zero_weight_error_def
      errors_length_error_def pow_error_def)

text \<open>The checks of \<open>weighted_mean\<close> as one cascade, in the order of the source.\<close>

lemma weighted_mean_checks:
  "weighted_mean py_sum xs (Some ws) =
     (if xs = [] then Inl empty_error
      else if length ws \<noteq> length xs then Inl weights_length_error
      else if py_sum ws = 0 then Inl zero_weight_error
      else Inr (weightedMean_spec xs ws (py_sum ws)))"
  by (simp add: weighted_mean_def weightedMean_spec_def zip_scalar_index)

lemma weighted_mean_default:
  "weighted_mean py_sum xs None = weighted_mean py_sum xs (Some (replicate (length xs) 1))"
  by (simp add: weighted_mean_def)

lemma overlaps_tension_row:
  "overlaps (tension_row r1 r2)
     = (\<not> (min (m_n r1 + m_u r1) (m_n r2 + m_u r2) < max (m_n r1 - m_u r1) (m_n r2 - m_u r2)))"
  by (simp add: tension_row_def Let_def)

lemma in_concat_map: "t \<in> set (concat (map f xs)) \<longleftrightarrow> (\<exists>x \<in> set xs. t \<in> set (f x))"
  by auto

text \<open>The rows of the result are exactly the rows of the pairs \<open>i < j\<close>.\<close>

lemma calculate_tension_mem:
  "t \<in> set (calculate_tension df)
     \<longleftrightarrow> (\<exists>i j. i < j \<and> j < length df \<and> t = tension_row (df ! i) (df ! j))"
proof
  assume "t \<in> set (calculate_tension df)"
  then have "\<exists>i \<in> set [0..<length df].
      t \<in> set (map (\<lambda>j. tension_row (df ! i) (df ! j)) [Suc i..<length df])"
    unfolding calculate_tension_def Let_def in_concat_map .
  then obtain i where "i \<in> set [0..<length df]"
      and "t \<in> set (map (\<lambda>j. tension_row (df ! i) (df ! j)) [Suc i..<length df])"
    by blast
  then obtain j where "j \<in> set [Suc i..<length df]" "t = tension_row (df ! i) (df ! j)"
    unfolding set_map by blast
  then have "i < j \<and> j < length df \<and> t = tension_row (df ! i) (df ! j)"
    by simp
  then show "\<exists>i j. i < j \<and> j < length df \<and> t = tension_row (df ! i) (df ! j)"
    by blast
next
  assume "\<exists>i j. i < j \<and> j < length df \<and> t = tension_row (df ! i) (df ! j)"
  then obtain i j where ij: "i < j" "j < length df" and t: "t = tension_row (df ! i) (df ! j)"
    by blast
  from ij t have "t \<in> set (map (\<lambda>j. tension_row (df ! i) (df ! j)) [Suc i..<length df])"
    by simp
  moreover from ij have "i \<in> set [0..<length df]"
    by simp
  ultimately have "\<exists>i \<in> set [0..<length df].
      t \<in> set (map (\<lambda>j. tension_row (df ! i) (df ! j)) [Suc i..<length df])"
    by blast
  then show "t \<in> set (calculate_tension df)"
    unfolding calculate_tension_def Let_def in_concat_map .
qed

lemma calculate_tension_rows:
  "set (calculate_tension df) = {tension_row (df ! i) (df ! j) | i j. i < j \<and> j < length df}"
  using calculate_tension_mem [of _ df] by blast

lemma conservative_interval_compute:
  "conservative_interval n u = {fst (compute_interval n u) .. snd (compute_interval n u)}"
  by (simp add: conservative_interval_def compute_interval_def)

text \<open>
  Two closed intervals meet exactly when the larger of the lower ends is not
  above the smaller of the upper ends.
\<close>

lemma min_max_intersect:
  "(\<not> (min (n1 + u1) (n2 + u2) < max (n1 - u1) (n2 - u2)))
     \<longleftrightarrow> conservative_interval n1 u1 \<inter> conservative_interval n2 u2 \<noteq> {}"
  for n1 u1 n2 u2 :: real
proof
  assume "\<not> (min (n1 + u1) (n2 + u2) < max (n1 - u1) (n2 - u2))"
  then have "max (n1 - u1) (n2 - u2) \<in> conservative_interval n1 u1 \<inter> conservative_interval n2 u2"
    by (auto simp: conservative_interval_def)
  then show "conservative_interval n1 u1 \<inter> conservative_interval n2 u2 \<noteq> {}"
    by blast
next
  assume "conservative_interval n1 u1 \<inter> conservative_interval n2 u2 \<noteq> {}"
  then obtain x where "x \<in> conservative_interval n1 u1" "x \<in> conservative_interval n2 u2"
    by blast
  then show "\<not> (min (n1 + u1) (n2 + u2) < max (n1 - u1) (n2 - u2))"
    by (auto simp: conservative_interval_def)
qed

subsection \<open>Non-negative uncertainty\<close>

text \<open>
  Claim C1. The constructor never fails and stores a non-negative uncertainty,
  whatever the sign of its second argument; \<^verbatim>\<open>NU(5, -3).u\<close> is 0. The
  uncertainty of the result of \<open>add\<close>, \<open>sub\<close>, \<open>mul\<close>, \<open>scalar\<close>, \<open>affine\<close>,
  \<open>negate\<close>, \<open>absolute\<close>, \<open>catch\<close> and \<open>flip\<close> is non-negative, and so is that of
  \<open>pow\<close> for an exponent \<open>k \<ge> 1\<close> on a value with non-negative uncertainty
  (for \<open>k = 1\<close> the result is the argument itself).
\<close>

theorem uncertainty_nonneg:
  "0 \<le> nu_u (NU_init n u)
   \<and> nu_n (NU_init n u) = n
   \<and> (u < 0 \<longrightarrow> nu_u (NU_init n u) = 0)
   \<and> (0 \<le> u \<longrightarrow> nu_u (NU_init n u) = u)
   \<and> nu_u (NU_init 5 (- 3)) = 0
   \<and> 0 \<le> nu_u (add x y) \<and> 0 \<le> nu_u (sub x y) \<and> 0 \<le> nu_u (mul x y)
   \<and> 0 \<le> nu_u (scalar x a) \<and> 0 \<le> nu_u (affine x a b)
   \<and> 0 \<le> nu_u (negate x) \<and> 0 \<le> nu_u (absolute x)
   \<and> 0 \<le> nu_u (catch x) \<and> 0 \<le> nu_u (flip x)
   \<and> (0 \<le> nu_u x \<and> 1 \<le> k \<longrightarrow> (\<exists>r. pow x k = Inr r \<and> 0 \<le> nu_u r))"
  by (simp add: add_def sub_def mul_def scalar_def affine_def negate_def absolute_def
      catch_def flip_def pow_def NU_init_nonneg pow_loop_nonneg)
    (simp add: NU_init_def)

theorem uncertainty_nonneg_witness:
  "(- 3 :: real) < 0 \<and> nu_u (NU_init 5 (- 3)) = 0
   \<and> 0 \<le> nu_u (NU_init 3 (1/10)) \<and> (1::int) \<le> 2
   \<and> (\<exists>r. pow (NU_init 3 (1/10)) 2 = Inr r \<and> 0 \<le> nu_u r)"
  using uncertainty_nonneg [of 5 "- 3" "NU_init 3 (1/10)" "NU_init 3 (1/10)" 0 0 2]
  by (simp add: NU_init_def)

subsection \<open>The invariant \<open>M(n, u) = |n| + u\<close>\<close>

text \<open>
  Claim C2. For \<open>x = NU(n, u)\<close> with \<open>u \<ge> 0\<close>, \<open>catch\<close> and \<open>flip\<close> preserve
  the invariant \<open>|n| + u\<close>, where \<open>catch x = NU(0, |n| + u)\<close> and
  \<open>flip x = NU(u, |n|)\<close>.
\<close>

theorem invariant_preserved:
  "0 \<le> u \<Longrightarrow> x = NU_init n u \<Longrightarrow>
     invariant (catch x) = invariant x \<and> invariant (flip x) = invariant x
     \<and> catch x = NU_init 0 (\<bar>n\<bar> + u) \<and> flip x = NU_init u \<bar>n\<bar>"
  by (simp add: invariant_def catch_def flip_def NU_init_def)

theorem invariant_preserved_witness:
  "(0::real) \<le> 2 \<and> invariant (catch (NU_init 5 2)) = 7 \<and> invariant (NU_init 5 2) = 7
   \<and> invariant (flip (NU_init 5 2)) = 7
   \<and> catch (NU_init 5 2) = NU_init 0 7 \<and> flip (NU_init 5 2) = NU_init 2 5"
  using invariant_preserved [of 2 "NU_init 5 2" 5]
  by (simp add: invariant_def NU_init_def)

subsection \<open>Sequential aggregation\<close>

text \<open>
  Claim C3. On value and error sequences of equal length \<open>n \<ge> 1\<close>,
  \<open>aggregate_sequential\<close> starts from the first pair and folds every later pair
  into it, in input order, with the combinator
  \<open>((v1 + v2) / 2, (e1 + e2) / 2 + |v1 - v2| / 2)\<close>, which is what
  \<open>aggregate_pair\<close> computes. On the values 67.4, 73.04 with the errors 0.5, 1.04
  the result is (70.22, 3.59).
\<close>

theorem aggregate_sequential_fold:
  "length values = length errors \<Longrightarrow> values \<noteq> [] \<Longrightarrow>
     aggregate_sequential values errors
       = Inr (foldl combine (hd values, hd errors) (zip (tl values) (tl errors)))
     \<and> combine (v1, e1) (v2, e2) = aggregate_pair v1 e1 v2 e2
     \<and> aggregate_pair v1 e1 v2 e2 = ((v1 + v2) / 2, (e1 + e2) / 2 + \<bar>v1 - v2\<bar> / 2)
     \<and> aggregate_sequential [67.4, 73.04] [0.5, 1.04]
         = Inr ((67.4 + 73.04) / 2, (0.5 + 1.04) / 2 + \<bar>67.4 - 73.04\<bar> / 2)
     \<and> aggregate_sequential [67.4, 73.04] [0.5, 1.04] = Inr (70.22, 3.59)"
  by (simp add: aggregate_sequential_foldl aggregate_pair_combine)
     (simp add: combine_def)

theorem aggregate_sequential_fold_witness:
  "length [1, 3, 9 :: real] = length [0, 1, 2 :: real] \<and> [1, 3, 9 :: real] \<noteq> []
   \<and> aggregate_sequential [1, 3, 9] [0, 1, 2] = Inr (11 / 2, 21 / 4)"
  using aggregate_sequential_fold [of "[1, 3, 9]" "[0, 1, 2]" 0 0 0 0]
  by (simp add: combine_def)

text \<open>
  Claim C7. \<open>aggregate_pair\<close> is symmetric in its two (value, error) pairs, but
  the fold depends on the order: there is a sequence of three pairs and a
  permutation of it on which \<open>aggregate_sequential\<close> returns different results.
\<close>

theorem fold_order_sensitive:
  "(\<forall>v1 e1 v2 e2. aggregate_pair v1 e1 v2 e2 = aggregate_pair v2 e2 v1 e1)
   \<and> (\<exists>ps qs. length ps = 3 \<and> mset qs = mset ps
        \<and> (\<exists>r s. aggregate_sequential (map fst ps) (map snd ps) = Inr r
              \<and> aggregate_sequential (map fst qs) (map snd qs) = Inr s \<and> r \<noteq> s))"
proof (intro conjI allI)
  fix v1 e1 v2 e2 :: real
  show "aggregate_pair v1 e1 v2 e2 = aggregate_pair v2 e2 v1 e1"
    by (simp add: aggregate_pair_def add.commute abs_minus_commute)
next
  let ?ps = "[(0, 0), (0, 0), (4, 0)] :: (real \<times> real) list"
  let ?qs = "[(4, 0), (0, 0), (0, 0)] :: (real \<times> real) list"
  have "aggregate_sequential (map fst ?ps) (map snd ?ps) = Inr (2, 2)"
    by (simp add: aggregate_sequential_foldl combine_def)
  moreover have "aggregate_sequential (map fst ?qs) (map snd ?qs) = Inr (1, 2)"
    by (simp add: aggregate_sequential_foldl combine_def)
  moreover have "length ?ps = 3" "mset ?qs = mset ?ps"
    by simp_all
  moreover have "(2 :: real, 2 :: real) \<noteq> (1, 2)" by simp
  ultimately show "\<exists>ps qs. length ps = 3 \<and> mset qs = mset ps
        \<and> (\<exists>r s. aggregate_sequential (map fst ps) (map snd ps) = Inr r
              \<and> aggregate_sequential (map fst qs) (map snd qs) = Inr s \<and> r \<noteq> s)"
    by blast
qed

theorem fold_order_sensitive_witness:
  "aggregate_pair 1 2 3 4 = aggregate_pair 3 4 1 2
   \<and> (\<exists>ps qs. length ps = 3 \<and> mset qs = mset ps
        \<and> aggregate_sequential (map fst ps) (map snd ps)
            \<noteq> aggregate_sequential (map fst qs) (map snd qs))"
  using fold_order_sensitive by (metis sum.inject(2))

subsection \<open>Flipping twice\<close>

text \<open>
  Claim C10. On a value with non-negative uncertainty, \<open>flip\<close> applied twice
  is \<open>absolute\<close>, that is \<open>NU(|n|, u)\<close>; so flipping twice gives the value
  back exactly when its nominal component is non-negative.
\<close>

theorem flip_twice:
  "0 \<le> nu_u x \<Longrightarrow>
     NU_eq (flip (flip x)) (absolute x)
     \<and> absolute x = \<lparr>nu_n = \<bar>nu_n x\<bar>, nu_u = nu_u x\<rparr>
     \<and> (NU_eq (flip (flip x)) x \<longleftrightarrow> 0 \<le> nu_n x)"
  by (cases x) (auto simp: NU_eq_def flip_def absolute_def NU_init_def)

theorem flip_twice_witness:
  "0 \<le> nu_u (NU_init (- 5) 2)
   \<and> NU_eq (flip (flip (NU_init (- 5) 2))) (absolute (NU_init (- 5) 2))
   \<and> absolute (NU_init (- 5) 2) = \<lparr>nu_n = 5, nu_u = 2\<rparr>
   \<and> \<not> NU_eq (flip (flip (NU_init (- 5) 2))) (NU_init (- 5) 2)"
  using flip_twice [of "NU_init (- 5) 2"]
  by (auto simp: NU_init_def)

subsection \<open>Folds and identities\<close>

text \<open>
  Claim C9. \<open>cumulative_sum\<close> is the left fold of \<open>add\<close> over its inputs
  and \<open>NU(0, 0)\<close> on no input; \<open>cumulative_product\<close> is the left fold of
  \<open>mul\<close> and \<open>NU(1, 0)\<close> on no input. On inputs with non-negative uncertainty
  the folds may as well start from \<open>NU(0, 0)\<close> and \<open>NU(1, 0)\<close>. \<open>NU(0, 0)\<close> is
  a right identity of \<open>add\<close>: \<^verbatim>\<open>add(x, NU(0, 0)) == x\<close> for every constructed
  value and for every value with non-negative uncertainty.
\<close>

theorem cumulative_folds:
  "cumulative_sum [] = NU_init 0 0
   \<and> cumulative_sum (x # xs) = foldl add x xs
   \<and> cumulative_product [] = NU_init 1 0
   \<and> cumulative_product (x # xs) = foldl mul x xs
   \<and> ((\<forall>y \<in> set ys. 0 \<le> nu_u y) \<longrightarrow>
        cumulative_sum ys = foldl add (NU_init 0 0) ys
        \<and> cumulative_product ys = foldl mul (NU_init 1 0) ys)
   \<and> NU_eq (add (NU_init n u) (NU_init 0 0)) (NU_init n u)
   \<and> (0 \<le> nu_u x \<longrightarrow> NU_eq (add x (NU_init 0 0)) x)"
proof -
  have "(\<forall>y \<in> set ys. 0 \<le> nu_u y) \<longrightarrow>
        cumulative_sum ys = foldl add (NU_init 0 0) ys
        \<and> cumulative_product ys = foldl mul (NU_init 1 0) ys"
    by (cases ys)
      (simp_all add: cumulative_sum_def cumulative_product_def sum_loop_foldl
        product_loop_foldl add_zero_left mul_one_left)
  moreover have "NU_eq (add (NU_init n u) (NU_init 0 0)) (NU_init n u)"
    by (simp add: NU_eq_def add_def NU_init_def)
  moreover have "0 \<le> nu_u x \<longrightarrow> NU_eq (add x (NU_init 0 0)) x"
    by (simp add: NU_eq_def add_def NU_init_def)
  ultimately show ?thesis
    by (simp add: cumulative_sum_def cumulative_product_def sum_loop_foldl product_loop_foldl)
qed

theorem cumulative_folds_witness:
  "0 \<le> nu_u (NU_init 1 (1/10)) \<and> 0 \<le> nu_u (NU_init 2 (2/10)) \<and> 0 \<le> nu_u (NU_init 3 (3/10))
   \<and> foldl add (NU_init 0 0) [NU_init 1 (1/10), NU_init 2 (2/10), NU_init 3 (3/10)]
       = NU_init 6 (6/10)
   \<and> cumulative_sum [NU_init 1 (1/10), NU_init 2 (2/10), NU_init 3 (3/10)] = NU_init 6 (6/10)
   \<and> 0 \<le> nu_u (NU_init 6 (6/10))
   \<and> NU_eq (add (NU_init 6 (6/10)) (NU_init 0 0)) (NU_init 6 (6/10))"
  using cumulative_folds [of "NU_init 6 (6/10)" "[]"
      "[NU_init 1 (1/10), NU_init 2 (2/10), NU_init 3 (3/10)]" 0 0]
  by (simp add: add_def NU_init_def)

subsection \<open>Integer powers\<close>

text \<open>
  Claim C6. \<open>pow x k\<close> fails exactly when \<open>k < 1\<close>, and then with the error of
  kind \<open>InvalidExponent\<close>; so it fails for \<open>k = 0\<close> and \<open>k = -1\<close>. For \<open>k \<ge> 1\<close>
  it returns the cumulative product of \<open>k\<close> copies of \<open>x\<close>, which is \<open>x\<close> multiplied
  \<open>k - 1\<close> times by \<open>x\<close> from the right, and \<open>x\<close> itself for \<open>k = 1\<close>.
\<close>

theorem pow_contract:
  "(pow x k = Inl pow_error \<longleftrightarrow> k < 1)
   \<and> ((\<exists>e. pow x k = Inl e) \<longleftrightarrow> k < 1)
   \<and> kind_of pow_error = Some InvalidExponent
   \<and> pow x 0 = Inl pow_error \<and> pow x (- 1) = Inl pow_error
   \<and> (1 \<le> k \<longrightarrow> pow x k = Inr (cumulative_product (replicate (nat k) x)))
   \<and> (1 \<le> k \<longrightarrow> pow x k = Inr (foldl mul x (replicate (nat k - 1) x)))
   \<and> pow x 1 = Inr x"
proof -
  have "1 \<le> k \<longrightarrow> replicate (nat k) x = x # replicate (nat (k - 1)) x"
    by (cases "nat k") (auto simp: nat_diff_distrib' dest: sym)
  moreover have "nat k - 1 = nat (k - 1)"
    by simp
  ultimately show ?thesis
    by (auto simp: pow_def kind_of_simps cumulative_product_def pow_loop_product
        product_loop_foldl)
qed

theorem pow_contract_witness:
  "(1::int) \<le> 3 \<and> pow (NU_init 3 (1 / 10)) 3 = Inr \<lparr>nu_n = 27, nu_u = 27 / 10\<rparr>
   \<and> \<not> (2::int) < 1 \<and> pow (NU_init 3 (1 / 10)) 2 = Inr \<lparr>nu_n = 9, nu_u = 6 / 10\<rparr>"
  using pow_contract [of "NU_init 3 (1 / 10)" 3] pow_contract [of "NU_init 3 (1 / 10)" 2]
  by (simp add: cumulative_product_def mul_def NU_init_def numeral_2_eq_2 numeral_3_eq_3)

subsection \<open>Weighted mean\<close>

text \<open>
  Claim C4. For a non-empty list \<open>xs\<close> and weights of the same length whose
  sum is not zero, \<open>weighted_mean\<close> returns \<open>scalar (1 / totalWeight)\<close> of the
  cumulative sum of the values \<open>scalar (weights[i]) (xs[i])\<close>, where
  \<open>totalWeight\<close> is \<^verbatim>\<open>sum(weights)\<close> as the code computes it (\<open>py_sum\<close>).
  Without weights the result is the one for weights that are all 1.
\<close>

theorem weighted_mean_computation:
  "(xs \<noteq> [] \<and> length weights = length xs \<and> py_sum weights \<noteq> 0
      \<longrightarrow> weighted_mean py_sum xs (Some weights)
            = Inr (scalar (cumulative_sum
                     (map (\<lambda>i. scalar (xs ! i) (weights ! i)) [0..<length xs]))
                     (1 / py_sum weights))
          \<and> weighted_mean py_sum xs (Some weights)
            = Inr (weightedMean_spec xs weights (py_sum weights)))
   \<and> weighted_mean py_sum xs None = weighted_mean py_sum xs (Some (replicate (length xs) 1))"
  by (simp add: weighted_mean_checks weighted_mean_default weightedMean_spec_def)

theorem weighted_mean_computation_witness:
  "[NU_init 10 1, NU_init 20 3] \<noteq> [] \<and> length [3, 1 :: real] = length [NU_init 10 1, NU_init 20 3]
   \<and> sum_list [3, 1 :: real] \<noteq> 0
   \<and> weighted_mean sum_list [NU_init 10 1, NU_init 20 3] (Some [3, 1])
       = Inr \<lparr>nu_n = 25 / 2, nu_u = 3 / 2\<rparr>"
  using weighted_mean_computation
    [where py_sum = sum_list and xs = "[NU_init 10 1, NU_init 20 3]" and weights = "[3, 1]"]
  by (simp add: weightedMean_spec_def cumulative_sum_def scalar_def add_def NU_init_def upt_rec)

subsection \<open>Failures of the aggregate functions\<close>

text \<open>
  Claim C5. \<open>weighted_mean\<close> returns no value but the error of kind
  \<open>EmptyInput\<close> when \<open>xs\<close> is empty; otherwise that of kind \<open>LengthMismatch\<close>
  when the weights and \<open>xs\<close> differ in length; otherwise that of kind
  \<open>ZeroTotalWeight\<close> when \<^verbatim>\<open>sum(weights)\<close>, as the code computes it
  (\<open>py_sum\<close>), is 0; otherwise it returns a value. Without weights it
  behaves as on the all-1 weights. \<open>aggregate_sequential\<close> fails with an
  error of kind \<open>LengthMismatch\<close> when the two sequences differ in length, and
  returns (0, 0) on empty sequences.
\<close>

theorem weighted_mean_errors:
  "(xs = [] \<longrightarrow> weighted_mean py_sum xs (Some ws) = Inl empty_error
                \<and> weighted_mean py_sum xs None = Inl empty_error)
   \<and> (xs \<noteq> [] \<and> length ws \<noteq> length xs
        \<longrightarrow> weighted_mean py_sum xs (Some ws) = Inl weights_length_error)
   \<and> (xs \<noteq> [] \<and> length ws = length xs \<and> py_sum ws = 0
        \<longrightarrow> weighted_mean py_sum xs (Some ws) = Inl zero_weight_error)
   \<and> (xs \<noteq> [] \<and> length ws = length xs \<and> py_sum ws \<noteq> 0
        \<longrightarrow> (\<exists>r. weighted_mean py_sum xs (Some ws) = Inr r))
   \<and> weighted_mean py_sum xs None = weighted_mean py_sum xs (Some (replicate (length xs) 1))
   \<and> (xs \<noteq> [] \<and> py_sum (replicate (length xs) 1) \<noteq> 0
        \<longrightarrow> (\<exists>r. weighted_mean py_sum xs None = Inr r))
   \<and> kind_of empty_error = Some EmptyInput
   \<and> kind_of weights_length_error = Some LengthMismatch
   \<and> kind_of zero_weight_error = Some ZeroTotalWeight
   \<and> (length vs \<noteq> length es \<longrightarrow> aggregate_sequential vs es = Inl errors_length_error)
   \<and> kind_of errors_length_error = Some LengthMismatch
   \<and> aggregate_sequential [] [] = Inr (0, 0)"
proof -
  have "length vs \<noteq> length es \<longrightarrow> aggregate_sequential vs es = Inl errors_length_error"
    by (simp add: aggregate_sequential_def)
  moreover have "aggregate_sequential [] [] = Inr (0, 0)"
    by (simp add: aggregate_sequential_def)
  ultimately show ?thesis
    by (simp add: weighted_mean_default weighted_mean_checks kind_of_simps)
qed

theorem weighted_mean_errors_witness:
  "weighted_mean sum_list [] (Some [1]) = Inl empty_error
   \<and> weighted_mean sum_list [NU_init 1 0] (Some [1, 2]) = Inl weights_length_error
   \<and> weighted_mean sum_list [NU_init 1 0, NU_init 2 0] (Some [1, - 1]) = Inl zero_weight_error
   \<and> (\<exists>r. weighted_mean sum_list [NU_init 1 0, NU_init 2 0] (Some [1, 1]) = Inr r)
   \<and> (\<exists>r. weighted_mean sum_list [NU_init 1 0, NU_init 2 0] None = Inr r)
   \<and> aggregate_sequential [1] [] = Inl errors_length_error"
  using
    weighted_mean_errors [where py_sum = sum_list and xs = "[]" and ws = "[1]"
      and vs = "[1]" and es = "[]"]
    weighted_mean_errors [where py_sum = sum_list and xs = "[NU_init 1 0]" and ws = "[1, 2]"
      and vs = "[1]" and es = "[]"]
    weighted_mean_errors [where py_sum = sum_list and xs = "[NU_init 1 0, NU_init 2 0]"
      and ws = "[1, - 1]" and vs = "[1]" and es = "[]"]
    weighted_mean_errors [where py_sum = sum_list and xs = "[NU_init 1 0, NU_init 2 0]"
      and ws = "[1, 1]" and vs = "[1]" and es = "[]"]
  by simp

subsection \<open>Overlap of two measurements\<close>

text \<open>
  Claim C8. For two measurements with non-negative uncertainties, the
  \<open>overlaps\<close> flag that \<open>calculate_tension\<close> computes for the pair is
  \<open>\<not> (min (n1 + u1) (n2 + u2) < max (n1 - u1) (n2 - u2))\<close>, and it is true
  exactly when the closed intervals \<open>[n1 - u1, n1 + u1]\<close> and
  \<open>[n2 - u2, n2 + u2]\<close> intersect. The rows of the result are those of the
  pairs \<open>i < j\<close>. For \<open>n1 = 67.4\<close>, \<open>u1 = 0.5\<close>, \<open>n2 = 73.04\<close>, \<open>u2 = 1.04\<close>
  (Planck 2018 and SH0ES 2022) the flag is false.
\<close>

theorem overlaps_flag:
  "(0 \<le> m_u r1 \<and> 0 \<le> m_u r2 \<longrightarrow>
      calculate_tension [r1, r2] = [tension_row r1 r2]
      \<and> overlaps (tension_row r1 r2)
          = (\<not> (min (m_n r1 + m_u r1) (m_n r2 + m_u r2) < max (m_n r1 - m_u r1) (m_n r2 - m_u r2)))
      \<and> (overlaps (tension_row r1 r2)
          \<longleftrightarrow> conservative_interval (m_n r1) (m_u r1) \<inter> conservative_interval (m_n r2) (m_u r2) \<noteq> {}))
   \<and> set (calculate_tension df) = {tension_row (df ! i) (df ! j) | i j. i < j \<and> j < length df}
   \<and> map overlaps (calculate_tension
        [\<lparr>source = s1, m_n = 67.4, m_u = 0.5\<rparr>, \<lparr>source = s2, m_n = 73.04, m_u = 1.04\<rparr>]) = [False]
   \<and> map overlaps (calculate_tension [planck, shoes]) = [False]"
proof -
  have "calculate_tension [r1, r2] = [tension_row r1 r2]" for r1 r2
    by (simp add: calculate_tension_def Let_def upt_rec)
  moreover have "\<not> overlaps (tension_row planck shoes)"
    by (simp add: overlaps_tension_row planck_def shoes_def)
  moreover have "\<not> overlaps (tension_row
      \<lparr>source = s1, m_n = 67.4, m_u = 0.5\<rparr> \<lparr>source = s2, m_n = 73.04, m_u = 1.04\<rparr>)"
    by (simp add: overlaps_tension_row)
  ultimately show ?thesis
    by (simp add: calculate_tension_rows min_max_intersect [symmetric] overlaps_tension_row)
qed

theorem overlaps_flag_witness:
  "0 \<le> m_u planck \<and> 0 \<le> m_u shoes
   \<and> m_n planck = 67.4 \<and> m_u planck = 0.5 \<and> m_n shoes = 73.04 \<and> m_u shoes = 1.04
   \<and> map overlaps (calculate_tension [planck, shoes]) = [False]
   \<and> conservative_interval 67.4 0.5 \<inter> conservative_interval 73.04 1.04 = {}"
  using overlaps_flag [of planck shoes "[]" "[]" "[]"]
  by (simp add: planck_def shoes_def conservative_interval_def)

end
